theory Spec2Isabelle
  imports Complex_Main "HOL-Library.Multiset"
begin

section \<open>Data model\<close>

text \<open>
  The orchestrator of \<^verbatim>\<open>biclustpy/main.py\<close> works on a weight matrix (a two-dimensional
  numpy array), on graphs of the networkx library, and on the modules \<^verbatim>\<open>helpers\<close>,
  \<^verbatim>\<open>ilp\<close> and \<^verbatim>\<open>ch\<close>, which it imports and whose code is not part of \<^verbatim>\<open>main.py\<close>.

  \<^item> A node is a Python integer. Rows and columns share one index space.
  \<^item> A graph is its node list (in iteration order) and its edge list.
  \<^item> A weight matrix is its shape and its entries. \<^verbatim>\<open>main.py\<close> reads the shape only
    and hands the matrix on to the helpers and to the solvers.
  \<^item> A bi-cluster is the pair of the list of rows and the list of columns.
  \<^item> Weights and costs are of one type \<open>'c\<close>. \<^verbatim>\<open>main.py\<close> uses \<open>0\<close> and \<open>+\<close> of it
    and nothing else, so no law of arithmetic is built into the model.
\<close>

type_synonym node = int

record graph =
  nodes :: "node list"
  edges :: "(node \<times> node) list"

record 'c weights =
  shape0 :: nat
  shape1 :: nat
  entry :: "nat \<Rightarrow> nat \<Rightarrow> 'c"

type_synonym bi_cluster = "node list \<times> int list"

text \<open>
  Both \<^verbatim>\<open>raise\<close> statements of \<^verbatim>\<open>main.py\<close> raise a plain \<^verbatim>\<open>Exception(msg)\<close>. The
  message is kept as the list of the pieces that the source concatenates. A piece is a
  string, or \<^verbatim>\<open>str(component.nodes)\<close>, or \<^verbatim>\<open>str(component.edges)\<close>; the last two are
  renderings made by networkx and stay symbolic, with the rendered value as argument.
\<close>

datatype piece =
  Text string
  | Str_nodes "node list"
  | Str_edges "(node \<times> node) list"

datatype error = Exception "piece list"

text \<open>
  The module \<^verbatim>\<open>helpers\<close>: the five functions that \<^verbatim>\<open>compute_bi_clusters\<close> calls for
  its result. (\<^verbatim>\<open>helpers.is_col\<close> is called for a printed line only.) The functions are
  parameters of the model, so every theorem about \<^verbatim>\<open>compute_bi_clusters\<close> holds for
  each implementation of them.
\<close>

record 'c helpers =
  build_graph_from_weights :: "'c weights \<Rightarrow> node list \<Rightarrow> graph"
  connected_components :: "graph \<Rightarrow> graph list"
  is_bi_clique :: "graph \<Rightarrow> nat \<Rightarrow> bool"
  is_row :: "node \<Rightarrow> nat \<Rightarrow> bool"
  node_to_col :: "node \<Rightarrow> nat \<Rightarrow> int"

text \<open>
  The modules \<^verbatim>\<open>ilp\<close> and \<^verbatim>\<open>ch\<close>: one \<^verbatim>\<open>run\<close> function each. A solver may
  consume wall-clock time or the random generator of the process, so it reads and
  returns a solver state \<open>'s\<close>, about which nothing is assumed.
\<close>

type_synonym 'c solution = "graph \<times> 'c \<times> bool"

record ('s, 'c) solvers =
  ilp_run :: "'c weights \<Rightarrow> graph \<Rightarrow> real \<Rightarrow> bool \<Rightarrow> 's \<Rightarrow> 'c solution \<times> 's"
  ch_run :: "'c weights \<Rightarrow> graph \<Rightarrow> real \<Rightarrow> int option \<Rightarrow> 's \<Rightarrow> 'c solution \<times> 's"

section \<open>The class Algorithm\<close>

record algorithm =
  algorithm_name :: string
  ilp_time_limit :: real
  ilp_tune :: bool
  ch_alpha :: real
  ch_seed :: "int option"

text \<open>\<^verbatim>\<open>Algorithm.__init__\<close>\<close>

definition Algorithm_init :: algorithm where
  "Algorithm_init =
     \<lparr>algorithm_name = ''ILP'', ilp_time_limit = 60, ilp_tune = False,
      ch_alpha = 1.0, ch_seed = None\<rparr>"

text \<open>
  \<^verbatim>\<open>Algorithm.use_ilp(self, time_limit = 60, tune = False)\<close>: an argument the caller
  leaves out is \<open>None\<close> here and takes the default of the signature.
\<close>

definition use_ilp :: "algorithm \<Rightarrow> real option \<Rightarrow> bool option \<Rightarrow> algorithm" where
  "use_ilp self time_limit tune =
     self\<lparr>algorithm_name := ''ILP'',
          ilp_time_limit := (case time_limit of None \<Rightarrow> 60 | Some t \<Rightarrow> t),
          ilp_tune := (case tune of None \<Rightarrow> False | Some b \<Rightarrow> b)\<rparr>"

text \<open>
  \<^verbatim>\<open>Algorithm.use_ch(self, alpha = 1.0, seed = None)\<close>: the seed is \<^verbatim>\<open>None\<close> or an
  integer, and leaving it out gives \<^verbatim>\<open>None\<close>.
\<close>

definition use_ch :: "algorithm \<Rightarrow> real option \<Rightarrow> int option \<Rightarrow> algorithm" where
  "use_ch self alpha seed =
     self\<lparr>algorithm_name := ''CH'',
          ch_alpha := (case alpha of None \<Rightarrow> 1.0 | Some a \<Rightarrow> a),
          ch_seed := seed\<rparr>"

text \<open>\<^verbatim>\<open>Algorithm.run(self, weights, subgraph)\<close>\<close>

definition run ::
  "algorithm \<Rightarrow> ('s, 'c) solvers \<Rightarrow> 'c weights \<Rightarrow> graph \<Rightarrow> 's \<Rightarrow> error + ('c solution \<times> 's)" where
  \<open>run self S weights subgraph s =
     (if algorithm_name self = ''ILP''
      then Inr (ilp_run S weights subgraph (ilp_time_limit self) (ilp_tune self) s)
      else if algorithm_name self = ''CH''
      then Inr (ch_run S weights subgraph (ch_alpha self) (ch_seed self) s)
      else Inl (Exception
        [Text (''Invalid algorithm name "'' @ algorithm_name self @ ''". Options: "ILP", "CH".'')]))\<close>

section \<open>The function compute_bi_clusters\<close>

text \<open>
  The lines that print progress are left out: they change no variable that the result
  is computed from.

  The loop over \<^verbatim>\<open>component.nodes\<close> (it occurs twice, with the same body) fills the
  two lists of a bi-cluster.
\<close>

fun fill_bi_cluster :: "'c helpers \<Rightarrow> nat \<Rightarrow> node list \<Rightarrow> bi_cluster \<Rightarrow> bi_cluster" where
  "fill_bi_cluster H num_rows [] bi_cluster = bi_cluster"
| "fill_bi_cluster H num_rows (node # rest) (rows, cols) =
     (if is_row H node num_rows
      then fill_bi_cluster H num_rows rest (rows @ [node], cols)
      else fill_bi_cluster H num_rows rest (rows, cols @ [node_to_col H node num_rows]))"

text \<open>The first loop: over the connected components of the whole graph.\<close>

fun classify_components ::
  "'c helpers \<Rightarrow> nat \<Rightarrow> graph list \<Rightarrow> bi_cluster list \<times> graph list \<Rightarrow> bi_cluster list \<times> graph list" where
  "classify_components H num_rows [] acc = acc"
| "classify_components H num_rows (component # rest) (bi_clusters, subgraphs) =
     (if is_bi_clique H component num_rows
      then classify_components H num_rows rest
             (bi_clusters @ [fill_bi_cluster H num_rows (nodes component) ([], [])], subgraphs)
      else classify_components H num_rows rest (bi_clusters, subgraphs @ [component]))"

text \<open>The inner loop of the second loop: over the components of one solver result.\<close>

fun check_components ::
  "'c helpers \<Rightarrow> nat \<Rightarrow> graph list \<Rightarrow> bi_cluster list \<Rightarrow> error + bi_cluster list" where
  "check_components H num_rows [] bi_clusters = Inr bi_clusters"
| "check_components H num_rows (component # rest) bi_clusters =
     (if \<not> is_bi_clique H component num_rows
      then Inl (Exception
             [Text ''Subgraph should be bi-clique but isn't.'',
              Text ''\<newline>Nodes: '', Str_nodes (nodes component),
              Text ''\<newline>Edges: '', Str_edges (edges component)])
      else check_components H num_rows rest
             (bi_clusters @ [fill_bi_cluster H num_rows (nodes component) ([], [])]))"

text \<open>
  The second loop: over the subgraphs that are not bi-cliques. The source adds the
  cost and conjoins the flag before it checks the components of the result; a failed
  check raises, so the two updates show only when the check has passed.
\<close>

fun solve_subgraphs ::
  "'c::{zero,plus} helpers \<Rightarrow> ('s, 'c) solvers \<Rightarrow> algorithm \<Rightarrow> 'c weights \<Rightarrow> nat \<Rightarrow> graph list \<Rightarrow>
     bi_cluster list \<times> 'c \<times> bool \<Rightarrow> 's \<Rightarrow> error + ((bi_cluster list \<times> 'c \<times> bool) \<times> 's)" where
  "solve_subgraphs H S algorithm weights num_rows [] acc s = Inr (acc, s)"
| "solve_subgraphs H S algorithm weights num_rows (subgraph # rest) (bi_clusters, obj_val, is_optimal) s =
     (case run algorithm S weights subgraph s of
        Inl e \<Rightarrow> Inl e
      | Inr ((bi_transitive_subgraph, local_obj_val, local_is_optimal), s') \<Rightarrow>
          (case check_components H num_rows
                  (connected_components H bi_transitive_subgraph) bi_clusters of
             Inl e \<Rightarrow> Inl e
           | Inr bi_clusters' \<Rightarrow>
               solve_subgraphs H S algorithm weights num_rows rest
                 (bi_clusters', obj_val + local_obj_val, is_optimal \<and> local_is_optimal) s'))"

definition compute_bi_clusters ::
  "'c::{zero,plus} helpers \<Rightarrow> ('s, 'c) solvers \<Rightarrow> 'c weights \<Rightarrow> algorithm \<Rightarrow> 's \<Rightarrow>
     error + ((bi_cluster list \<times> 'c \<times> bool) \<times> 's)" where
  "compute_bi_clusters H S weights algorithm s =
     (let num_rows = shape0 weights;
          num_cols = shape1 weights;
          graph = build_graph_from_weights H weights (map int [0..<num_rows + num_cols]);
          components = connected_components H graph;
          (bi_clusters, subgraphs) = classify_components H num_rows components ([], [])
      in solve_subgraphs H S algorithm weights num_rows subgraphs (bi_clusters, 0, True) s)"

section \<open>The helpers, from their contract\<close>

text \<open>
  Modelled from the spec: \<^verbatim>\<open>helpers.is_row\<close>, which \<^verbatim>\<open>main.py\<close> imports and does not
  define. A node is a row if and only if its index is below the row count.
\<close>

definition spec_is_row :: "node \<Rightarrow> nat \<Rightarrow> bool" where
  "spec_is_row node num_rows = (node < int num_rows)"

text \<open>
  Modelled from the spec: \<^verbatim>\<open>helpers.node_to_col\<close>. The node of a column is its index
  shifted by the row count; the function shifts it back.
\<close>

definition spec_node_to_col :: "node \<Rightarrow> nat \<Rightarrow> int" where
  "spec_node_to_col node num_rows = node - int num_rows"

text \<open>
  Modelled from the spec: \<^verbatim>\<open>helpers.build_graph_from_weights\<close>. The graph has the
  given nodes, and an edge from a row to a column, both among the given nodes, for
  every entry of the matrix that is greater than 0.
\<close>

definition spec_build_graph_from_weights :: "'c::{zero,ord} weights \<Rightarrow> node list \<Rightarrow> graph" where
  "spec_build_graph_from_weights weights ns =
     \<lparr>nodes = ns,
      edges = [(row, col).
                 row \<leftarrow> ns, 0 \<le> row \<and> row < int (shape0 weights),
                 col \<leftarrow> ns, int (shape0 weights) \<le> col \<and> col < int (shape0 weights + shape1 weights),
                 0 < entry weights (nat row) (nat (spec_node_to_col col (shape0 weights)))]\<rparr>"

definition adjacent :: "graph \<Rightarrow> node \<Rightarrow> node \<Rightarrow> bool" where
  "adjacent g u v = ((u, v) \<in> set (edges g) \<or> (v, u) \<in> set (edges g))"

text \<open>
  Modelled from the spec: \<^verbatim>\<open>helpers.connected_components\<close>. A component is a maximal
  set of nodes reachable from each other, with the induced edges. The nodes reachable
  from a node are found by adding the neighbours of the found nodes, once for every
  node of the graph. The components come in the order of their first nodes.
\<close>

definition grow :: "graph \<Rightarrow> node list \<Rightarrow> node list" where
  "grow g found = filter (\<lambda>u. u \<in> set found \<or> list_ex (adjacent g u) found) (nodes g)"

definition reachable :: "graph \<Rightarrow> node \<Rightarrow> node list" where
  "reachable g v = (grow g ^^ length (nodes g)) [v]"

definition induced :: "graph \<Rightarrow> node list \<Rightarrow> graph" where
  "induced g vs =
     \<lparr>nodes = vs, edges = filter (\<lambda>e. fst e \<in> set vs \<and> snd e \<in> set vs) (edges g)\<rparr>"

fun components_from :: "graph \<Rightarrow> node list \<Rightarrow> node list \<Rightarrow> graph list" where
  "components_from g [] seen = []"
| "components_from g (v # vs) seen =
     (if v \<in> set seen then components_from g vs seen
      else induced g (reachable g v) # components_from g vs (seen @ reachable g v))"

definition spec_connected_components :: "graph \<Rightarrow> graph list" where
  "spec_connected_components g = components_from g (nodes g) []"

text \<open>
  Modelled from the spec: \<^verbatim>\<open>helpers.is_bi_clique\<close>. Every row of the subgraph is
  adjacent to every column of the subgraph, and no edge leaves the subgraph.
\<close>

definition spec_is_bi_clique :: "graph \<Rightarrow> nat \<Rightarrow> bool" where
  "spec_is_bi_clique g num_rows =
     (list_all (\<lambda>row. list_all (adjacent g row)
                        (filter (\<lambda>col. \<not> spec_is_row col num_rows) (nodes g)))
               (filter (\<lambda>row. spec_is_row row num_rows) (nodes g))
      \<and> list_all (\<lambda>e. fst e \<in> set (nodes g) \<and> snd e \<in> set (nodes g)) (edges g))"

definition spec_helpers :: "'c::{zero,ord} helpers" where
  "spec_helpers =
     \<lparr>build_graph_from_weights = spec_build_graph_from_weights,
      connected_components = spec_connected_components,
      is_bi_clique = spec_is_bi_clique,
      is_row = spec_is_row,
      node_to_col = spec_node_to_col\<rparr>"

text \<open>\<^verbatim>\<open>numpy.array(rows)\<close> for a list of rows of one length.\<close>

definition array :: "'c list list \<Rightarrow> 'c weights" where
  "array rows =
     \<lparr>shape0 = length rows,
      shape1 = (case rows of [] \<Rightarrow> 0 | r # _ \<Rightarrow> length r),
      entry = (\<lambda>i k. rows ! i ! k)\<rparr>"

section \<open>Two solvers for the examples\<close>

text \<open>
  The examples need solvers that can be evaluated. The solver state is a clock that
  counts the calls.

  \<open>fill_in\<close> inserts every missing edge between a row and a column of the subgraph
  and reports what the insertions cost. It reports the result as optimal while the
  clock is below the time limit.

  \<open>give_back\<close> returns the subgraph as it is, at cost 0, and reports it as optimal.
  It breaks the contract of a solver on every subgraph that is not a bi-clique.
\<close>

definition missing_edges :: "graph \<Rightarrow> nat \<Rightarrow> (node \<times> node) list" where
  "missing_edges g num_rows =
     [(row, col).
        row \<leftarrow> filter (\<lambda>v. spec_is_row v num_rows) (nodes g),
        col \<leftarrow> filter (\<lambda>v. \<not> spec_is_row v num_rows) (nodes g),
        \<not> adjacent g row col]"

definition fill_in :: "int weights \<Rightarrow> graph \<Rightarrow> real \<Rightarrow> bool \<Rightarrow> nat \<Rightarrow> int solution \<times> nat" where
  "fill_in weights subgraph time_limit tune clock =
     ((subgraph\<lparr>edges := edges subgraph @ missing_edges subgraph (shape0 weights)\<rparr>,
       sum_list (map (\<lambda>(row, col). - entry weights (nat row)
                        (nat (spec_node_to_col col (shape0 weights))))
                     (missing_edges subgraph (shape0 weights))),
       real clock < time_limit),
      Suc clock)"

definition give_back :: "int weights \<Rightarrow> graph \<Rightarrow> real \<Rightarrow> int option \<Rightarrow> nat \<Rightarrow> int solution \<times> nat" where
  "give_back weights subgraph alpha seed clock = ((subgraph, 0, True), Suc clock)"

definition example_solvers :: "(nat, int) solvers" where
  "example_solvers = \<lparr>ilp_run = fill_in, ch_run = give_back\<rparr>"

text \<open>
  Three instances. The first is the matrix of the spec's scenario. In the second,
  rows 0 and 1 form a component with both columns that is not a bi-clique, and row 2
  has no positive entry. The third has two components, rows 0, 1 with columns 0, 1 and
  rows 2, 3 with columns 2, 3, and in each of them one entry is not positive, so
  neither is a bi-clique.
\<close>

definition diagonal_weights :: "int weights" where
  "diagonal_weights = array [ [1, - 1], [- 1, 1] ]"

definition lonely_row_weights :: "int weights" where
  "lonely_row_weights = array [ [1, 1], [1, - 2], [- 1, - 1] ]"

definition two_block_weights :: "int weights" where
  "two_block_weights =
     array [ [1, 1, - 1, - 1], [1, - 2, - 1, - 1], [- 1, - 1, 1, 1], [- 1, - 1, 1, - 3] ]"

section \<open>Notions of the specification\<close>

text \<open>
  The connected components of the graph of the whole instance, those of them that are
  bi-cliques already, and the hard subgraphs, which are the others.
\<close>

definition all_components :: "'c helpers \<Rightarrow> 'c weights \<Rightarrow> graph list" where
  "all_components H weights =
     connected_components H
       (build_graph_from_weights H weights (map int [0..<shape0 weights + shape1 weights]))"

definition bi_clique_components :: "'c helpers \<Rightarrow> 'c weights \<Rightarrow> graph list" where
  "bi_clique_components H weights =
     filter (\<lambda>c. is_bi_clique H c (shape0 weights)) (all_components H weights)"

definition hard_subgraphs :: "'c helpers \<Rightarrow> 'c weights \<Rightarrow> graph list" where
  "hard_subgraphs H weights =
     filter (\<lambda>c. \<not> is_bi_clique H c (shape0 weights)) (all_components H weights)"

text \<open>
  The bi-cluster of a component: its row nodes, and its column nodes translated
  through \<^verbatim>\<open>node_to_col\<close>.
\<close>

definition bi_cluster_of :: "'c helpers \<Rightarrow> nat \<Rightarrow> graph \<Rightarrow> bi_cluster" where
  "bi_cluster_of H num_rows c =
     (filter (\<lambda>v. is_row H v num_rows) (nodes c),
      map (\<lambda>v. node_to_col H v num_rows) (filter (\<lambda>v. \<not> is_row H v num_rows) (nodes c)))"

text \<open>
  The results of the selector's \<^verbatim>\<open>run\<close> over a list of subgraphs, one after the other,
  each call in the solver state that the call before it has left. The list ends where
  \<^verbatim>\<open>run\<close> raises.
\<close>

fun run_results ::
  "algorithm \<Rightarrow> ('s, 'c) solvers \<Rightarrow> 'c weights \<Rightarrow> graph list \<Rightarrow> 's \<Rightarrow> 'c solution list" where
  "run_results A S weights [] s = []"
| "run_results A S weights (subgraph # rest) s =
     (case run A S weights subgraph s of
        Inl e \<Rightarrow> []
      | Inr (solution, s') \<Rightarrow> solution # run_results A S weights rest s')"

text \<open>The results of \<^verbatim>\<open>run\<close> over all hard subgraphs of an instance.\<close>

definition solver_results ::
  "'c helpers \<Rightarrow> ('s, 'c) solvers \<Rightarrow> 'c weights \<Rightarrow> algorithm \<Rightarrow> 's \<Rightarrow> 'c solution list" where
  "solver_results H S weights A s = run_results A S weights (hard_subgraphs H weights) s"

text \<open>The two names on which \<^verbatim>\<open>run\<close> calls a solver.\<close>

definition known_name :: "algorithm \<Rightarrow> bool" where
  "known_name A = (algorithm_name A = ''ILP'' \<or> algorithm_name A = ''CH'')"

text \<open>The components of the subgraphs that the solver has returned, in order.\<close>

definition returned_components :: "'c helpers \<Rightarrow> 'c solution list \<Rightarrow> graph list" where
  "returned_components H solutions = concat (map (\<lambda>r. connected_components H (fst r)) solutions)"

abbreviation not_bi_clique_message :: "graph \<Rightarrow> piece list" where
  "not_bi_clique_message c \<equiv>
     [Text ''Subgraph should be bi-clique but isn't.'',
      Text ''\<newline>Nodes: '', Str_nodes (nodes c),
      Text ''\<newline>Edges: '', Str_edges (edges c)]"

abbreviation invalid_name_message :: "string \<Rightarrow> piece list" where
  \<open>invalid_name_message name \<equiv>
     [Text (''Invalid algorithm name "'' @ name @ ''". Options: "ILP", "CH".'')]\<close>

section \<open>The loops as list functions\<close>

lemma fill_bi_cluster_eq:
  "fill_bi_cluster H n ns (rows, cols) =
     (rows @ filter (\<lambda>v. is_row H v n) ns,
      cols @ map (\<lambda>v. node_to_col H v n) (filter (\<lambda>v. \<not> is_row H v n) ns))"
  by (induction ns arbitrary: rows cols) simp_all

lemma fill_bi_cluster_of: "fill_bi_cluster H n (nodes c) ([], []) = bi_cluster_of H n c"
  by (simp add: fill_bi_cluster_eq bi_cluster_of_def)

lemma classify_components_eq:
  "classify_components H n cs (bcs, sgs) =
     (bcs @ map (bi_cluster_of H n) (filter (\<lambda>c. is_bi_clique H c n) cs),
      sgs @ filter (\<lambda>c. \<not> is_bi_clique H c n) cs)"
  by (induction cs arbitrary: bcs sgs) (simp_all add: fill_bi_cluster_of)

lemma check_components_eq:
  "check_components H n cs bcs =
     (case find (\<lambda>c. \<not> is_bi_clique H c n) cs of
        Some c \<Rightarrow> Inl (Exception (not_bi_clique_message c))
      | None \<Rightarrow> Inr (bcs @ map (bi_cluster_of H n) cs))"
  by (induction cs arbitrary: bcs) (simp_all add: fill_bi_cluster_of split: option.split)

lemma run_unknown:
  "\<not> known_name A \<Longrightarrow> run A S w sg s = Inl (Exception (invalid_name_message (algorithm_name A)))"
  by (simp add: run_def known_name_def)

lemma run_known:
  assumes "known_name A"
  obtains bt c fl s' where "run A S w sg s = Inr ((bt, c, fl), s')"
proof -
  from assms have "\<exists>r. run A S w sg s = Inr r"
    unfolding run_def known_name_def by (cases "algorithm_name A = ''ILP''") simp_all
  then obtain r where "run A S w sg s = Inr r" ..
  with that show thesis by (cases r) auto
qed

lemma run_results_length:
  "known_name A \<Longrightarrow> length (run_results A S w sgs s) = length sgs"
proof (induction sgs arbitrary: s)
  case Nil
  then show ?case by simp
next
  case (Cons sg sgs)
  from Cons.prems obtain bt c fl s' where "run A S w sg s = Inr ((bt, c, fl), s')"
    by (rule run_known)
  with Cons show ?case by simp
qed

lemma run_results_unknown: "\<not> known_name A \<Longrightarrow> run_results A S w sgs s = []"
  by (cases sgs) (simp_all add: run_unknown)

lemma solve_subgraphs_unknown:
  "\<not> known_name A \<Longrightarrow>
   solve_subgraphs H S A w n sgs acc s =
     (if sgs = [] then Inr (acc, s) else Inl (Exception (invalid_name_message (algorithm_name A))))"
  by (cases sgs; cases acc) (simp_all add: run_unknown)

lemma find_append_case:
  "find P (xs @ ys) = (case find P xs of Some x \<Rightarrow> Some x | None \<Rightarrow> find P ys)"
  by (induction xs) simp_all

text \<open>
  The second loop, for a known name: it raises for the first returned component that is
  not a bi-clique, and otherwise appends the bi-clusters of all returned components,
  adds the costs from left to right, and conjoins the flags.
\<close>

lemma solve_subgraphs_known:
  "known_name A \<Longrightarrow>
   \<exists>s'. solve_subgraphs H S A w n sgs (bcs, obj, opt) s =
     (case find (\<lambda>c. \<not> is_bi_clique H c n) (returned_components H (run_results A S w sgs s)) of
        Some c \<Rightarrow> Inl (Exception (not_bi_clique_message c))
      | None \<Rightarrow> Inr ((bcs @ map (bi_cluster_of H n) (returned_components H (run_results A S w sgs s)),
                      foldl (+) obj (map (\<lambda>r. fst (snd r)) (run_results A S w sgs s)),
                      opt \<and> list_all (\<lambda>r. snd (snd r)) (run_results A S w sgs s)),
                     s'))"
proof (induction sgs arbitrary: bcs obj opt s)
  case Nil
  then show ?case by (simp add: returned_components_def)
next
  case (Cons sg sgs)
  from Cons.prems obtain bt c fl s1 where r: "run A S w sg s = Inr ((bt, c, fl), s1)"
    by (rule run_known)
  let ?bad = "\<lambda>c. \<not> is_bi_clique H c n"
  have rc: "returned_components H (run_results A S w (sg # sgs) s)
        = connected_components H bt @ returned_components H (run_results A S w sgs s1)"
    by (simp add: r returned_components_def)
  show ?case
  proof (cases "find ?bad (connected_components H bt)")
    case (Some d)
    then show ?thesis
      by (simp add: r rc check_components_eq find_append_case del: run_results.simps)
  next
    case None
    from Cons.IH[OF Cons.prems, of "bcs @ map (bi_cluster_of H n) (connected_components H bt)"
        "obj + c" "opt \<and> fl" s1]
    obtain s' where ih: "solve_subgraphs H S A w n sgs
       (bcs @ map (bi_cluster_of H n) (connected_components H bt), obj + c, opt \<and> fl) s1 =
     (case find ?bad (returned_components H (run_results A S w sgs s1)) of
        Some c \<Rightarrow> Inl (Exception (not_bi_clique_message c))
      | None \<Rightarrow> Inr (((bcs @ map (bi_cluster_of H n) (connected_components H bt))
                         @ map (bi_cluster_of H n) (returned_components H (run_results A S w sgs s1)),
                      foldl (+) (obj + c) (map (\<lambda>r. fst (snd r)) (run_results A S w sgs s1)),
                      (opt \<and> fl) \<and> list_all (\<lambda>r. snd (snd r)) (run_results A S w sgs s1)),
                     s'))" by blast
    have rr: "run_results A S w (sg # sgs) s = (bt, c, fl) # run_results A S w sgs s1"
      by (simp add: r)
    show ?thesis
      apply (rule exI[of _ s'])
      apply (simp only: rc find_append_case None option.case)
      apply (simp add: r check_components_eq None ih rr del: run_results.simps split: option.split)
      done
  qed
qed

text \<open>The function is its second loop, started with the bi-clusters of the first.\<close>

lemma compute_bi_clusters_split:
  "compute_bi_clusters H S w A s =
     solve_subgraphs H S A w (shape0 w) (hard_subgraphs H w)
       (map (bi_cluster_of H (shape0 w)) (bi_clique_components H w), 0, True) s"
  by (simp add: compute_bi_clusters_def Let_def classify_components_eq
      hard_subgraphs_def bi_clique_components_def all_components_def)

lemma compute_bi_clusters_unknown:
  "\<not> known_name A \<Longrightarrow>
   compute_bi_clusters H S w A s =
     (if hard_subgraphs H w = []
      then Inr ((map (bi_cluster_of H (shape0 w)) (bi_clique_components H w), 0, True), s)
      else Inl (Exception (invalid_name_message (algorithm_name A))))"
  by (simp add: compute_bi_clusters_split solve_subgraphs_unknown)

lemma compute_bi_clusters_known:
  assumes "known_name A"
  shows "\<exists>s'. compute_bi_clusters H S w A s =
     (case find (\<lambda>c. \<not> is_bi_clique H c (shape0 w))
             (returned_components H (solver_results H S w A s)) of
        Some c \<Rightarrow> Inl (Exception (not_bi_clique_message c))
      | None \<Rightarrow>
          Inr ((map (bi_cluster_of H (shape0 w)) (bi_clique_components H w)
                  @ map (bi_cluster_of H (shape0 w))
                      (returned_components H (solver_results H S w A s)),
                foldl (+) 0 (map (\<lambda>r. fst (snd r)) (solver_results H S w A s)),
                list_all (\<lambda>r. snd (snd r)) (solver_results H S w A s)),
               s'))"
proof -
  from solve_subgraphs_known[OF assms, of H S w "shape0 w" "hard_subgraphs H w"
      "map (bi_cluster_of H (shape0 w)) (bi_clique_components H w)" 0 True s]
  obtain s' where "solve_subgraphs H S A w (shape0 w) (hard_subgraphs H w)
       (map (bi_cluster_of H (shape0 w)) (bi_clique_components H w), 0, True) s =
     (case find (\<lambda>c. \<not> is_bi_clique H c (shape0 w))
             (returned_components H (run_results A S w (hard_subgraphs H w) s)) of
        Some c \<Rightarrow> Inl (Exception (not_bi_clique_message c))
      | None \<Rightarrow>
          Inr ((map (bi_cluster_of H (shape0 w)) (bi_clique_components H w)
                  @ map (bi_cluster_of H (shape0 w))
                      (returned_components H (run_results A S w (hard_subgraphs H w) s)),
                foldl (+) 0 (map (\<lambda>r. fst (snd r)) (run_results A S w (hard_subgraphs H w) s)),
                True \<and> list_all (\<lambda>r. snd (snd r)) (run_results A S w (hard_subgraphs H w) s)),
               s'))" by blast
  then show ?thesis
    by (intro exI[of _ "s'"])
      (simp add: compute_bi_clusters_split solver_results_def split: option.splits)
qed

text \<open>What a computation that returns has returned, for every name.\<close>

lemma compute_bi_clusters_result:
  assumes "compute_bi_clusters H S w A s = Inr ((bcs, obj, opt), s')"
  shows "bcs = map (bi_cluster_of H (shape0 w))
                (bi_clique_components H w @ returned_components H (solver_results H S w A s))"
    and "obj = foldl (+) 0 (map (\<lambda>r. fst (snd r)) (solver_results H S w A s))"
    and "opt = list_all (\<lambda>r. snd (snd r)) (solver_results H S w A s)"
    and "length (solver_results H S w A s) = length (hard_subgraphs H w)"
    and "find (\<lambda>c. \<not> is_bi_clique H c (shape0 w))
           (returned_components H (solver_results H S w A s)) = None"
proof -
  let ?rs = "solver_results H S w A s"
  have all: "bcs = map (bi_cluster_of H (shape0 w))
                (bi_clique_components H w @ returned_components H ?rs)
     \<and> obj = foldl (+) 0 (map (\<lambda>r. fst (snd r)) ?rs)
     \<and> opt = list_all (\<lambda>r. snd (snd r)) ?rs
     \<and> length ?rs = length (hard_subgraphs H w)
     \<and> find (\<lambda>c. \<not> is_bi_clique H c (shape0 w)) (returned_components H ?rs) = None"
  proof (cases "known_name A")
    case True
    from compute_bi_clusters_known[OF True, of H S w s] assms
    show ?thesis
      by (auto simp add: run_results_length[OF True] solver_results_def split: option.splits)
  next
    case False
    from compute_bi_clusters_unknown[OF False, of H S w s] assms
    show ?thesis
      by (auto simp add: run_results_unknown[OF False] returned_components_def
          solver_results_def split: if_splits)
  qed
  from all show "bcs = map (bi_cluster_of H (shape0 w))
                (bi_clique_components H w @ returned_components H ?rs)" by simp
  from all show "obj = foldl (+) 0 (map (\<lambda>r. fst (snd r)) ?rs)" by simp
  from all show "opt = list_all (\<lambda>r. snd (snd r)) ?rs" by simp
  from all show "length ?rs = length (hard_subgraphs H w)" by simp
  from all show "find (\<lambda>c. \<not> is_bi_clique H c (shape0 w)) (returned_components H ?rs) = None"
    by simp
qed

lemma no_hard_subgraphs:
  assumes "\<forall>c \<in> set (all_components H w). is_bi_clique H c (shape0 w)"
  shows "hard_subgraphs H w = []" and "bi_clique_components H w = all_components H w"
  using assms by (simp_all add: hard_subgraphs_def bi_clique_components_def)

lemma foldl_plus_sum_list: "foldl (+) a xs = (a::'a::monoid_add) + sum_list xs"
  by (induction xs arbitrary: a) (simp_all add: add.assoc)

section \<open>Nodes and indices\<close>

lemma rows_of_bi_clusters:
  "concat (map fst (map (bi_cluster_of H n) cs)) = filter (\<lambda>v. is_row H v n) (concat (map nodes cs))"
  by (induction cs) (simp_all add: bi_cluster_of_def)

lemma cols_of_bi_clusters:
  "concat (map snd (map (bi_cluster_of H n) cs))
     = map (\<lambda>v. node_to_col H v n) (filter (\<lambda>v. \<not> is_row H v n) (concat (map nodes cs)))"
  by (induction cs) (simp_all add: bi_cluster_of_def)

lemma mset_nodes_filter_split:
  "mset (concat (map nodes (filter P cs))) + mset (concat (map nodes (filter (\<lambda>c. \<not> P c) cs)))
     = mset (concat (map nodes cs))"
  by (induction cs) simp_all

lemma mset_returned_nodes:
  assumes "length rs = length sgs"
    and "\<forall>(sg, r) \<in> set (zip sgs rs). mset (nodes (fst r)) = mset (nodes sg)"
    and "\<forall>r \<in> set rs. mset (concat (map nodes (connected_components H (fst r)))) = mset (nodes (fst r))"
  shows "mset (concat (map nodes (returned_components H rs))) = mset (concat (map nodes sgs))"
  using assms
proof (induction rs sgs rule: list_induct2)
  case Nil
  then show ?case by (simp add: returned_components_def)
next
  case (Cons r rs sg sgs)
  then show ?case by (simp add: returned_components_def)
qed

lemma rows_of_range:
  "filter_mset (\<lambda>v. v < int n) (mset (map int [0..<n + m])) = mset (map int [0..<n])"
proof -
  have "filter (\<lambda>v. v < int n) (map int [0..<n + m]) = map int (filter (\<lambda>i. i < n) [0..<n + m])"
    by (simp add: filter_map comp_def)
  also have "filter (\<lambda>i. i < n) [0..<n + m] = [0..<n]"
    by (induction m) simp_all
  finally show ?thesis by (metis mset_filter)
qed

lemma cols_of_range:
  "image_mset (\<lambda>v. v - int n) (filter_mset (\<lambda>v. \<not> v < int n) (mset (map int [0..<n + m])))
     = mset (map int [0..<m])"
proof -
  have "filter (\<lambda>v. \<not> v < int n) (map int [0..<n + m]) = map int (filter (\<lambda>i. \<not> i < n) [0..<n + m])"
    by (simp add: filter_map comp_def)
  also have "filter (\<lambda>i. \<not> i < n) [0..<n + m] = map (\<lambda>k. n + k) [0..<m]"
    by (induction m) simp_all
  finally have "map (\<lambda>v. v - int n) (filter (\<lambda>v. \<not> v < int n) (map int [0..<n + m])) = map int [0..<m]"
    by (simp add: comp_def)
  then show ?thesis by (metis mset_filter mset_map)
qed

lemma count_range:
  assumes "i < n"
  shows "count (mset (map int [0..<n])) (int i) = 1"
proof -
  have "distinct (map int [0..<n])" by (simp add: distinct_map)
  moreover from assms have "int i \<in> set (map int [0..<n])" by simp
  ultimately show ?thesis by (simp only: distinct_count_atmost_1 if_True)
qed

text \<open>An element that occurs once in the concatenation occurs in one of the lists.\<close>

lemma in_exactly_one:
  assumes "count (mset (concat xss)) x = 1"
  shows "length (filter (\<lambda>xs. x \<in> set xs) xss) = 1"
  using assms
proof (induction xss)
  case Nil
  then show ?case by simp
next
  case (Cons xs xss)
  have sum: "count (mset (concat (xs # xss))) x = count (mset xs) x + count (mset (concat xss)) x"
    by simp
  show ?case
  proof (cases "x \<in> set xs")
    case True
    then have "count (mset xs) x \<noteq> 0" by (simp add: count_eq_zero_iff)
    with Cons.prems sum have "count (mset (concat xss)) x = 0" by linarith
    then have "x \<notin> set (concat xss)" by (simp add: count_eq_zero_iff)
    then have "filter (\<lambda>xs. x \<in> set xs) xss = []" by (auto simp add: filter_empty_conv)
    with True show ?thesis by simp
  next
    case False
    then have "count (mset xs) x = 0" by (simp add: count_eq_zero_iff)
    with Cons.prems sum have "count (mset (concat xss)) x = 1" by linarith
    with Cons.IH False show ?thesis by simp
  qed
qed

section \<open>The examples, evaluated\<close>

lemmas spec_helpers_simps =
  spec_helpers_def spec_build_graph_from_weights_def spec_connected_components_def
  spec_is_bi_clique_def spec_is_row_def spec_node_to_col_def adjacent_def grow_def
  reachable_def induced_def array_def

lemma diagonal_components:
  "all_components spec_helpers (array [ [1, - 1], [- 1, 1::'c::linordered_idom] ]) =
     [\<lparr>nodes = [0, 2], edges = [(0, 2)]\<rparr>, \<lparr>nodes = [1, 3], edges = [(1, 3)]\<rparr>]"
  by (simp add: all_components_def spec_helpers_simps upt_rec)

lemma diagonal_bi_cliques:
  "\<forall>c \<in> set (all_components spec_helpers (array [ [1, - 1], [- 1, 1::'c::linordered_idom] ])).
      is_bi_clique spec_helpers c (shape0 (array [ [1, - 1], [- 1, 1::'c] ]))"
  unfolding diagonal_components by (simp add: spec_helpers_simps)

lemma diagonal_bi_clusters:
  "map (bi_cluster_of spec_helpers (shape0 (array [ [1, - 1], [- 1, 1::'c::linordered_idom] ])))
     (all_components spec_helpers (array [ [1, - 1], [- 1, 1::'c] ]))
   = [([0], [0]), ([1], [1])]"
  unfolding diagonal_components by (simp add: bi_cluster_of_def spec_helpers_simps)

lemma lonely_row_components:
  "all_components spec_helpers lonely_row_weights =
     [\<lparr>nodes = [0, 1, 3, 4], edges = [(0, 3), (0, 4), (1, 3)]\<rparr>, \<lparr>nodes = [2], edges = []\<rparr>]"
  by (simp add: all_components_def lonely_row_weights_def spec_helpers_simps upt_rec)

lemma lonely_row_hard:
  "hard_subgraphs spec_helpers lonely_row_weights =
     [\<lparr>nodes = [0, 1, 3, 4], edges = [(0, 3), (0, 4), (1, 3)]\<rparr>]"
  unfolding hard_subgraphs_def lonely_row_components
  by (simp add: lonely_row_weights_def spec_helpers_simps)

lemma lonely_row_bi_cliques:
  "bi_clique_components spec_helpers lonely_row_weights = [\<lparr>nodes = [2], edges = []\<rparr>]"
  unfolding bi_clique_components_def lonely_row_components
  by (simp add: lonely_row_weights_def spec_helpers_simps)

lemma lonely_row_results:
  "solver_results spec_helpers example_solvers lonely_row_weights Algorithm_init 0 =
   [(\<lparr>nodes = [0, 1, 3, 4], edges = [(0, 3), (0, 4), (1, 3), (1, 4)]\<rparr>, 2, True)]"
  unfolding solver_results_def lonely_row_hard
  by (simp add: run_def Algorithm_init_def example_solvers_def fill_in_def
      missing_edges_def lonely_row_weights_def spec_is_row_def spec_node_to_col_def adjacent_def array_def)

lemma lonely_row_returned:
  "connected_components spec_helpers
     \<lparr>nodes = [0, 1, 3, 4], edges = [(0, 3), (0, 4), (1, 3), (1, 4)]\<rparr>
   = [\<lparr>nodes = [0, 1, 3, 4], edges = [(0, 3), (0, 4), (1, 3), (1, 4)]\<rparr>]"
  by (simp add: spec_helpers_simps)

lemma lonely_row_computed:
  "compute_bi_clusters spec_helpers example_solvers lonely_row_weights Algorithm_init 0
   = Inr (([([2], []), ([0, 1], [0, 1])], 2, True), 1)"
  unfolding compute_bi_clusters_split lonely_row_hard lonely_row_bi_cliques
  by (simp add: run_def Algorithm_init_def example_solvers_def fill_in_def
      missing_edges_def lonely_row_weights_def bi_cluster_of_def fill_bi_cluster_eq spec_helpers_simps)

lemma two_block_components:
  "all_components spec_helpers two_block_weights =
     [\<lparr>nodes = [0, 1, 4, 5], edges = [(0, 4), (0, 5), (1, 4)]\<rparr>,
      \<lparr>nodes = [2, 3, 6, 7], edges = [(2, 6), (2, 7), (3, 6)]\<rparr>]"
  by (simp add: all_components_def two_block_weights_def spec_helpers_simps upt_rec)

lemma two_block_hard:
  "hard_subgraphs spec_helpers two_block_weights =
     [\<lparr>nodes = [0, 1, 4, 5], edges = [(0, 4), (0, 5), (1, 4)]\<rparr>,
      \<lparr>nodes = [2, 3, 6, 7], edges = [(2, 6), (2, 7), (3, 6)]\<rparr>]"
  unfolding hard_subgraphs_def two_block_components
  by (simp add: two_block_weights_def spec_helpers_simps)

lemma two_block_not_bi_clique:
  "\<not> is_bi_clique spec_helpers \<lparr>nodes = [0, 1, 4, 5], edges = [(0, 4), (0, 5), (1, 4)]\<rparr>
        (shape0 two_block_weights)"
  by (simp add: two_block_weights_def spec_helpers_simps)

lemma two_block_give_back:
  "solver_results spec_helpers example_solvers two_block_weights (use_ch Algorithm_init None None) 0 =
   [(\<lparr>nodes = [0, 1, 4, 5], edges = [(0, 4), (0, 5), (1, 4)]\<rparr>, 0, True),
    (\<lparr>nodes = [2, 3, 6, 7], edges = [(2, 6), (2, 7), (3, 6)]\<rparr>, 0, True)]"
  unfolding solver_results_def two_block_hard
  by (simp add: run_def use_ch_def Algorithm_init_def example_solvers_def give_back_def)

lemma two_block_fill_in:
  "solver_results spec_helpers example_solvers two_block_weights
     (use_ilp Algorithm_init (Some 1) None) 0 =
   [(\<lparr>nodes = [0, 1, 4, 5], edges = [(0, 4), (0, 5), (1, 4), (1, 5)]\<rparr>, 2, True),
    (\<lparr>nodes = [2, 3, 6, 7], edges = [(2, 6), (2, 7), (3, 6), (3, 7)]\<rparr>, 3, False)]"
  unfolding solver_results_def two_block_hard
  by (simp add: run_def use_ilp_def Algorithm_init_def example_solvers_def fill_in_def
      missing_edges_def two_block_weights_def spec_is_row_def spec_node_to_col_def adjacent_def array_def)

lemma two_block_returned_give_back:
  "returned_components spec_helpers
   [(\<lparr>nodes = [0, 1, 4, 5], edges = [(0, 4), (0, 5), (1, 4)]\<rparr>, 0::int, True),
    (\<lparr>nodes = [2, 3, 6, 7], edges = [(2, 6), (2, 7), (3, 6)]\<rparr>, 0, True)]
   = [\<lparr>nodes = [0, 1, 4, 5], edges = [(0, 4), (0, 5), (1, 4)]\<rparr>,
      \<lparr>nodes = [2, 3, 6, 7], edges = [(2, 6), (2, 7), (3, 6)]\<rparr>]"
  by (simp add: returned_components_def spec_helpers_simps)

lemma two_block_returned_fill_in:
  "returned_components spec_helpers
   [(\<lparr>nodes = [0, 1, 4, 5], edges = [(0, 4), (0, 5), (1, 4), (1, 5)]\<rparr>, 2::int, True),
    (\<lparr>nodes = [2, 3, 6, 7], edges = [(2, 6), (2, 7), (3, 6), (3, 7)]\<rparr>, 3, False)]
   = [\<lparr>nodes = [0, 1, 4, 5], edges = [(0, 4), (0, 5), (1, 4), (1, 5)]\<rparr>,
      \<lparr>nodes = [2, 3, 6, 7], edges = [(2, 6), (2, 7), (3, 6), (3, 7)]\<rparr>]"
  by (simp add: returned_components_def spec_helpers_simps)

lemma two_block_computed:
  "compute_bi_clusters spec_helpers example_solvers two_block_weights
     (use_ilp Algorithm_init (Some 1) None) 0
   = Inr (([([0, 1], [0, 1]), ([2, 3], [2, 3])], 5, False), 2)"
  unfolding compute_bi_clusters_split two_block_hard bi_clique_components_def two_block_components
  by (simp add: run_def use_ilp_def Algorithm_init_def example_solvers_def fill_in_def
      missing_edges_def two_block_weights_def bi_cluster_of_def fill_bi_cluster_eq spec_helpers_simps)

section \<open>The check of the solver results\<close>

text \<open>
  C1: the components of every subgraph that \<^verbatim>\<open>run\<close> returns for a hard subgraph are
  checked with \<^verbatim>\<open>is_bi_clique\<close>, whatever the optimality flag says. If one of them is
  not a bi-clique, \<^verbatim>\<open>compute_bi_clusters\<close> raises the exception whose message names the
  nodes and the edges of the first such component, and returns nothing else. If
  \<^verbatim>\<open>compute_bi_clusters\<close> returns a result, then \<^verbatim>\<open>run\<close> has returned for every hard
  subgraph and every returned component is a bi-clique.
\<close>

theorem failed_check_aborts:
  "(c \<in> set (returned_components H (solver_results H S w A s))
      \<and> \<not> is_bi_clique H c (shape0 w) \<longrightarrow>
    (\<exists>d. find (\<lambda>c. \<not> is_bi_clique H c (shape0 w))
            (returned_components H (solver_results H S w A s)) = Some d
        \<and> d \<in> set (returned_components H (solver_results H S w A s))
        \<and> \<not> is_bi_clique H d (shape0 w)
        \<and> compute_bi_clusters H S w A s
            = Inl (Exception
                [Text ''Subgraph should be bi-clique but isn't.'',
                 Text ''\<newline>Nodes: '', Str_nodes (nodes d),
                 Text ''\<newline>Edges: '', Str_edges (edges d)])))
   \<and> (compute_bi_clusters H S w A s = Inr result \<longrightarrow>
        length (solver_results H S w A s) = length (hard_subgraphs H w)
        \<and> (\<forall>c \<in> set (returned_components H (solver_results H S w A s)).
              is_bi_clique H c (shape0 w)))"
proof (intro conjI impI)
  let ?cs = "returned_components H (solver_results H S w A s)"
  let ?bad = "\<lambda>c. \<not> is_bi_clique H c (shape0 w)"
  assume fails: "c \<in> set ?cs \<and> \<not> is_bi_clique H c (shape0 w)"
  have known: "known_name A"
  proof (rule ccontr)
    assume "\<not> known_name A"
    then have "?cs = []"
      by (simp add: run_results_unknown returned_components_def solver_results_def)
    with fails show False by simp
  qed
  from fails have "find ?bad ?cs \<noteq> None"
    by (auto simp add: find_None_iff)
  then obtain d where d: "find ?bad ?cs = Some d" by blast
  then have "d \<in> set ?cs" and "\<not> is_bi_clique H d (shape0 w)"
    by (auto simp add: find_Some_iff)
  moreover from d compute_bi_clusters_known[OF known, of H S w s]
  have "compute_bi_clusters H S w A s = Inl (Exception (not_bi_clique_message d))" by simp
  ultimately show "\<exists>d. find ?bad ?cs = Some d \<and> d \<in> set ?cs \<and> \<not> is_bi_clique H d (shape0 w)
        \<and> compute_bi_clusters H S w A s = Inl (Exception (not_bi_clique_message d))"
    using d by blast
next
  assume "compute_bi_clusters H S w A s = Inr result"
  then have ok: "compute_bi_clusters H S w A s
      = Inr ((fst (fst result), fst (snd (fst result)), snd (snd (fst result))), snd result)"
    by simp
  show "length (solver_results H S w A s) = length (hard_subgraphs H w)"
    by (rule compute_bi_clusters_result(4)[OF ok])
  from compute_bi_clusters_result(5)[OF ok]
  show "\<forall>c \<in> set (returned_components H (solver_results H S w A s)). is_bi_clique H c (shape0 w)"
    by (simp add: find_None_iff)
qed

text \<open>
  On the instance with two blocks, \<open>give_back\<close> returns the first block as it is and
  reports it as optimal; the exception names this block. With \<open>fill_in\<close> the
  computation returns, and the two returned components, one per block, are bi-cliques.
\<close>

theorem failed_check_aborts_witness:
  "\<lparr>nodes = [0, 1, 4, 5], edges = [(0, 4), (0, 5), (1, 4)]\<rparr>
     \<in> set (returned_components spec_helpers
              (solver_results spec_helpers example_solvers two_block_weights
                 (use_ch Algorithm_init None None) 0))
   \<and> \<not> is_bi_clique (spec_helpers :: int helpers)
          \<lparr>nodes = [0, 1, 4, 5], edges = [(0, 4), (0, 5), (1, 4)]\<rparr> (shape0 two_block_weights)
   \<and> compute_bi_clusters spec_helpers example_solvers two_block_weights
        (use_ch Algorithm_init None None) 0
      = Inl (Exception
          [Text ''Subgraph should be bi-clique but isn't.'',
           Text ''\<newline>Nodes: '', Str_nodes [0, 1, 4, 5],
           Text ''\<newline>Edges: '', Str_edges [(0, 4), (0, 5), (1, 4)]])
   \<and> compute_bi_clusters spec_helpers example_solvers two_block_weights
        (use_ilp Algorithm_init (Some 1) None) 0
      = Inr (([([0, 1], [0, 1]), ([2, 3], [2, 3])], 5, False), 2)
   \<and> list_all (\<lambda>c. is_bi_clique (spec_helpers :: int helpers) c (shape0 two_block_weights))
        (returned_components spec_helpers
           (solver_results spec_helpers example_solvers two_block_weights
              (use_ilp Algorithm_init (Some 1) None) 0))"
proof -
  let ?H = "spec_helpers :: int helpers"
  let ?c = "\<lparr>nodes = [0, 1, 4, 5], edges = [(0, 4), (0, 5), (1, 4)]\<rparr>"
  let ?cs = "returned_components ?H
              (solver_results ?H example_solvers two_block_weights
                 (use_ch Algorithm_init None None) 0)"
  have cs: "?cs = [?c, \<lparr>nodes = [2, 3, 6, 7], edges = [(2, 6), (2, 7), (3, 6)]\<rparr>]"
    by (simp only: two_block_give_back two_block_returned_give_back)
  have h1: "?c \<in> set ?cs" unfolding cs by simp
  have h2: "\<not> is_bi_clique ?H ?c (shape0 two_block_weights)"
    by (rule two_block_not_bi_clique)
  have first: "find (\<lambda>c. \<not> is_bi_clique ?H c (shape0 two_block_weights)) ?cs = Some ?c"
    unfolding cs by (simp only: find.simps h2 not_False_eq_True if_True)
  from failed_check_aborts[of ?c ?H example_solvers two_block_weights
      "use_ch Algorithm_init None None" 0] h1 h2
  obtain d
    where d: "find (\<lambda>c. \<not> is_bi_clique ?H c (shape0 two_block_weights)) ?cs = Some d"
      and raised: "compute_bi_clusters ?H example_solvers two_block_weights
              (use_ch Algorithm_init None None) 0 = Inl (Exception (not_bi_clique_message d))"
    by blast
  from d first have "d = ?c" by simp
  with raised have a: "compute_bi_clusters ?H example_solvers two_block_weights
        (use_ch Algorithm_init None None) 0 = Inl (Exception (not_bi_clique_message ?c))"
    by simp
  from failed_check_aborts[of _ ?H example_solvers two_block_weights
      "use_ilp Algorithm_init (Some 1) None" 0] two_block_computed
  have b: "\<forall>c \<in> set (returned_components ?H
                    (solver_results ?H example_solvers two_block_weights
                       (use_ilp Algorithm_init (Some 1) None) 0)).
          is_bi_clique ?H c (shape0 two_block_weights)"
    by blast
  from h1 h2 a two_block_computed b show ?thesis by (simp add: list_all_iff)
qed

section \<open>The aggregated flag and cost\<close>

text \<open>
  C2: the optimality flag that \<^verbatim>\<open>compute_bi_clusters\<close> returns is the conjunction of
  the flags that \<^verbatim>\<open>run\<close> has returned for the hard subgraphs, one flag for each of
  them; with no hard subgraph this conjunction is true.
\<close>

theorem is_optimal_is_conjunction:
  assumes "compute_bi_clusters H S w A s = Inr ((bi_clusters, obj_val, is_optimal), s')"
  shows "is_optimal = list_all (\<lambda>r. snd (snd r)) (solver_results H S w A s)
         \<and> length (solver_results H S w A s) = length (hard_subgraphs H w)"
  using compute_bi_clusters_result(3,4)[OF assms] by simp

text \<open>
  On the instance with two blocks, \<open>fill_in\<close> with time limit 1 reports the first
  block as optimal and the second as not optimal; the returned flag is false.
\<close>

theorem is_optimal_is_conjunction_witness:
  "compute_bi_clusters spec_helpers example_solvers two_block_weights
     (use_ilp Algorithm_init (Some 1) None) 0
     = Inr (([([0, 1], [0, 1]), ([2, 3], [2, 3])], 5, False), 2)
   \<and> map (\<lambda>r. snd (snd r))
        (solver_results spec_helpers example_solvers two_block_weights
           (use_ilp Algorithm_init (Some 1) None) 0) = [True, False]
   \<and> False = list_all (\<lambda>r. snd (snd r))
        (solver_results spec_helpers example_solvers two_block_weights
           (use_ilp Algorithm_init (Some 1) None) 0)
   \<and> length (solver_results spec_helpers example_solvers two_block_weights
           (use_ilp Algorithm_init (Some 1) None) 0)
       = length (hard_subgraphs spec_helpers two_block_weights)"
proof -
  from is_optimal_is_conjunction[OF two_block_computed] two_block_computed
  show ?thesis by (simp add: two_block_fill_in two_block_hard)
qed

text \<open>
  C3: the objective value that \<^verbatim>\<open>compute_bi_clusters\<close> returns is the sum of the costs
  that \<^verbatim>\<open>run\<close> has returned for the hard subgraphs, one cost for each of them, added
  from left to right starting from 0. The components that are bi-cliques already have
  no term in this sum.
\<close>

theorem obj_val_is_sum:
  fixes obj_val :: "'c::monoid_add"
  assumes "compute_bi_clusters H S w A s = Inr ((bi_clusters, obj_val, is_optimal), s')"
  shows "obj_val = foldl (+) 0 (map (\<lambda>r. fst (snd r)) (solver_results H S w A s))
         \<and> obj_val = sum_list (map (\<lambda>r. fst (snd r)) (solver_results H S w A s))
         \<and> length (solver_results H S w A s) = length (hard_subgraphs H w)"
  using compute_bi_clusters_result(2,4)[OF assms] by (simp add: foldl_plus_sum_list)

text \<open>On the instance with two blocks, the costs are 2 and 3 and the returned value is 5.\<close>

theorem obj_val_is_sum_witness:
  "compute_bi_clusters spec_helpers example_solvers two_block_weights
     (use_ilp Algorithm_init (Some 1) None) 0
     = Inr (([([0, 1], [0, 1]), ([2, 3], [2, 3])], 5, False), 2)
   \<and> map (\<lambda>r. fst (snd r))
        (solver_results spec_helpers example_solvers two_block_weights
           (use_ilp Algorithm_init (Some 1) None) 0) = [2, 3]
   \<and> 5 = sum_list (map (\<lambda>r. fst (snd r))
        (solver_results spec_helpers example_solvers two_block_weights
           (use_ilp Algorithm_init (Some 1) None) 0))"
proof -
  from obj_val_is_sum[OF two_block_computed] two_block_computed
  show ?thesis by (simp add: two_block_fill_in)
qed

section \<open>Instances without hard subgraphs\<close>

text \<open>
  C4: if every connected component of the graph of the instance is a bi-clique, then
  \<^verbatim>\<open>compute_bi_clusters\<close> returns cost 0, the flag true, and for each component, in
  order, the bi-cluster of its row nodes and of its column nodes translated through
  \<^verbatim>\<open>node_to_col\<close>. It does so for every selector and all solvers, also for a selector
  on which \<^verbatim>\<open>run\<close> would raise, and the solver state is the one it started with:
  \<^verbatim>\<open>run\<close> is not called.
\<close>

theorem already_bi_transitive:
  assumes "\<forall>c \<in> set (all_components H w). is_bi_clique H c (shape0 w)"
  shows "compute_bi_clusters H S w A s =
           Inr ((map (\<lambda>c. (filter (\<lambda>v. is_row H v (shape0 w)) (nodes c),
                            map (\<lambda>v. node_to_col H v (shape0 w))
                              (filter (\<lambda>v. \<not> is_row H v (shape0 w)) (nodes c))))
                   (all_components H w),
                 0, True), s)"
proof -
  have "bi_cluster_of H (shape0 w) =
      (\<lambda>c. (filter (\<lambda>v. is_row H v (shape0 w)) (nodes c),
             map (\<lambda>v. node_to_col H v (shape0 w))
               (filter (\<lambda>v. \<not> is_row H v (shape0 w)) (nodes c))))"
    by (rule ext) (simp add: bi_cluster_of_def)
  then show ?thesis
    by (simp add: compute_bi_clusters_split no_hard_subgraphs[OF assms])
qed

text \<open>
  The matrix of the spec's scenario with the example solvers: the clock of the solvers
  stays at 0.
\<close>

theorem already_bi_transitive_witness:
  "list_all (\<lambda>c. is_bi_clique spec_helpers c (shape0 diagonal_weights))
     (all_components spec_helpers diagonal_weights)
   \<and> compute_bi_clusters spec_helpers example_solvers diagonal_weights Algorithm_init 0
       = Inr (([([0], [0]), ([1], [1])], 0, True), 0)"
proof -
  have h: "\<forall>c \<in> set (all_components spec_helpers diagonal_weights).
       is_bi_clique spec_helpers c (shape0 diagonal_weights)"
    unfolding diagonal_weights_def by (rule diagonal_bi_cliques)
  have "map (bi_cluster_of spec_helpers (shape0 diagonal_weights))
          (all_components spec_helpers diagonal_weights) = [([0], [0]), ([1], [1])]"
    unfolding diagonal_weights_def by (rule diagonal_bi_clusters)
  with already_bi_transitive[OF h, of example_solvers Algorithm_init 0] h
  show ?thesis by (simp add: bi_cluster_of_def [abs_def] list_all_iff)
qed

text \<open>
  C8: for the matrix with rows 1, -1 and -1, 1, and with the helpers as the spec
  describes them, \<^verbatim>\<open>compute_bi_clusters\<close> returns the bi-clusters ([0], [0]) and
  ([1], [1]), cost 0 and the flag true, for every selector and all solvers.
\<close>

theorem diagonal_scenario:
  "compute_bi_clusters spec_helpers S (array [ [1, - 1], [- 1, 1::'c::linordered_idom] ]) A s
     = Inr (([([0], [0]), ([1], [1])], 0, True), s)"
  by (simp add: compute_bi_clusters_split no_hard_subgraphs[OF diagonal_bi_cliques]
      diagonal_bi_clusters)

section \<open>Every index in one bi-cluster\<close>

text \<open>
  C5: let \<^verbatim>\<open>is_row\<close> and \<^verbatim>\<open>node_to_col\<close> be as the spec describes them, let the
  components of the whole graph hold each of the n + m nodes once, let every subgraph
  that a solver returns have the nodes of the hard subgraph it was called on, and let
  the components of every returned subgraph hold each of its nodes once. Then, in what
  \<^verbatim>\<open>compute_bi_clusters\<close> returns, the row lists together hold each row index
  0, ..., n - 1 once and the column lists together hold each column index 0, ..., m - 1
  once, so each index is in exactly one bi-cluster. There is one bi-cluster for every
  component, also for a component with rows only or columns only.
\<close>

theorem every_index_in_one_bi_cluster:
  assumes ok: "compute_bi_clusters H S w A s = Inr ((bi_clusters, obj_val, is_optimal), s')"
    and row: "\<forall>v. is_row H v (shape0 w) = (v < int (shape0 w))"
    and col: "\<forall>v. node_to_col H v (shape0 w) = v - int (shape0 w)"
    and whole: "mset (concat (map nodes (all_components H w)))
                  = mset (map int [0..<shape0 w + shape1 w])"
    and same: "\<forall>(sg, r) \<in> set (zip (hard_subgraphs H w) (solver_results H S w A s)).
                  mset (nodes (fst r)) = mset (nodes sg)"
    and part: "\<forall>r \<in> set (solver_results H S w A s).
                  mset (concat (map nodes (connected_components H (fst r)))) = mset (nodes (fst r))"
  shows "mset (concat (map fst bi_clusters)) = mset (map int [0..<shape0 w])
         \<and> mset (concat (map snd bi_clusters)) = mset (map int [0..<shape1 w])
         \<and> (\<forall>i < shape0 w. length (filter (\<lambda>bc. int i \<in> set (fst bc)) bi_clusters) = 1)
         \<and> (\<forall>k < shape1 w. length (filter (\<lambda>bc. int k \<in> set (snd bc)) bi_clusters) = 1)
         \<and> bi_clusters = map (bi_cluster_of H (shape0 w))
                   (bi_clique_components H w
                      @ returned_components H (solver_results H S w A s))"
proof -
  let ?n = "shape0 w" and ?m = "shape1 w"
  let ?rs = "solver_results H S w A s"
  let ?cs = "bi_clique_components H w @ returned_components H ?rs"
  have bcs: "bi_clusters = map (bi_cluster_of H ?n) ?cs"
    by (rule compute_bi_clusters_result(1)[OF ok])
  have len: "length ?rs = length (hard_subgraphs H w)"
    by (rule compute_bi_clusters_result(4)[OF ok])
  have "mset (concat (map nodes (returned_components H ?rs)))
          = mset (concat (map nodes (hard_subgraphs H w)))"
    by (rule mset_returned_nodes[OF len same part])
  then have "mset (concat (map nodes ?cs))
          = mset (concat (map nodes (bi_clique_components H w)))
            + mset (concat (map nodes (hard_subgraphs H w)))"
    by simp
  also have "\<dots> = mset (concat (map nodes (all_components H w)))"
    unfolding bi_clique_components_def hard_subgraphs_def by (rule mset_nodes_filter_split)
  finally have nodes: "mset (concat (map nodes ?cs)) = mset (map int [0..<?n + ?m])"
    using whole by simp
  have "concat (map fst bi_clusters) = filter (\<lambda>v. v < int ?n) (concat (map nodes ?cs))"
    unfolding bcs rows_of_bi_clusters using row by simp
  then have "mset (concat (map fst bi_clusters))
      = filter_mset (\<lambda>v. v < int ?n) (mset (concat (map nodes ?cs)))"
    by (simp only: mset_filter)
  then have rows: "mset (concat (map fst bi_clusters)) = mset (map int [0..<?n])"
    unfolding nodes by (simp only: rows_of_range)
  have "concat (map snd bi_clusters)
      = map (\<lambda>v. v - int ?n) (filter (\<lambda>v. \<not> v < int ?n) (concat (map nodes ?cs)))"
    unfolding bcs cols_of_bi_clusters using row col by simp
  then have "mset (concat (map snd bi_clusters))
      = image_mset (\<lambda>v. v - int ?n)
          (filter_mset (\<lambda>v. \<not> v < int ?n) (mset (concat (map nodes ?cs))))"
    by (simp only: mset_map mset_filter)
  then have cols: "mset (concat (map snd bi_clusters)) = mset (map int [0..<?m])"
    unfolding nodes by (simp only: cols_of_range)
  have one_row: "length (filter (\<lambda>bc. int i \<in> set (fst bc)) bi_clusters) = 1" if "i < ?n" for i
  proof -
    have "count (mset (concat (map fst bi_clusters))) (int i) = 1"
      unfolding rows using that by (rule count_range)
    from in_exactly_one[OF this] show ?thesis by (simp add: filter_map comp_def)
  qed
  have one_col: "length (filter (\<lambda>bc. int k \<in> set (snd bc)) bi_clusters) = 1" if "k < ?m" for k
  proof -
    have "count (mset (concat (map snd bi_clusters))) (int k) = 1"
      unfolding cols using that by (rule count_range)
    from in_exactly_one[OF this] show ?thesis by (simp add: filter_map comp_def)
  qed
  from rows cols one_row one_col bcs show ?thesis by blast
qed

text \<open>
  The instance with the lonely row: rows 0 and 1 are solved together with both
  columns, and row 2, which has no positive entry, is a bi-cluster without columns.
\<close>

theorem every_index_in_one_bi_cluster_witness:
  "compute_bi_clusters spec_helpers example_solvers lonely_row_weights Algorithm_init 0
     = Inr (([([2], []), ([0, 1], [0, 1])], 2, True), 1)
   \<and> shape0 lonely_row_weights = 3
   \<and> shape1 lonely_row_weights = 2
   \<and> mset (concat (map nodes (all_components spec_helpers lonely_row_weights)))
       = mset (map int [0..<shape0 lonely_row_weights + shape1 lonely_row_weights])
   \<and> list_all (\<lambda>(sg, r). mset (nodes (fst r)) = mset (nodes sg))
        (zip (hard_subgraphs spec_helpers lonely_row_weights)
           (solver_results spec_helpers example_solvers lonely_row_weights Algorithm_init 0))
   \<and> list_all (\<lambda>r. mset (concat (map nodes
                       (connected_components (spec_helpers :: int helpers) (fst r))))
                    = mset (nodes (fst r)))
        (solver_results spec_helpers example_solvers lonely_row_weights Algorithm_init 0)
   \<and> mset (concat (map fst [([2], []), ([0, 1], [0, 1::int])])) = mset (map int [0..<3])
   \<and> mset (concat (map snd [([2::int], []), ([0, 1], [0, 1])])) = mset (map int [0..<2])
   \<and> list_all (\<lambda>i. length (filter (\<lambda>bc. int i \<in> set (fst bc))
                                [([2], []), ([0, 1], [0, 1::int])]) = 1) [0..<3]
   \<and> list_all (\<lambda>k. length (filter (\<lambda>bc. int k \<in> set (snd bc))
                                [([2::int], []), ([0, 1], [0, 1])]) = 1) [0..<2]"
proof -
  let ?w = lonely_row_weights
  let ?H = "spec_helpers :: int helpers"
  have shape: "shape0 ?w = 3" "shape1 ?w = 2"
    by (simp_all add: lonely_row_weights_def array_def)
  have row: "\<forall>v. is_row ?H v (shape0 ?w) = (v < int (shape0 ?w))"
    by (simp add: spec_helpers_def spec_is_row_def)
  have col: "\<forall>v. node_to_col ?H v (shape0 ?w) = v - int (shape0 ?w)"
    by (simp add: spec_helpers_def spec_node_to_col_def)
  have whole: "mset (concat (map nodes (all_components ?H ?w)))
                 = mset (map int [0..<shape0 ?w + shape1 ?w])"
    unfolding lonely_row_components shape by (simp add: upt_rec)
  have same: "\<forall>(sg, r) \<in> set (zip (hard_subgraphs ?H ?w)
                 (solver_results ?H example_solvers ?w Algorithm_init 0)).
               mset (nodes (fst r)) = mset (nodes sg)"
    unfolding lonely_row_results lonely_row_hard by simp
  have part: "\<forall>r \<in> set (solver_results ?H example_solvers ?w Algorithm_init 0).
               mset (concat (map nodes (connected_components ?H (fst r)))) = mset (nodes (fst r))"
    unfolding lonely_row_results by (simp add: lonely_row_returned)
  from every_index_in_one_bi_cluster[OF lonely_row_computed row col whole same part]
  have rows: "mset (concat (map fst [([2], []), ([0, 1], [0, 1::int])])) = mset (map int [0..<3])"
    and cols: "mset (concat (map snd [([2::int], []), ([0, 1], [0, 1])])) = mset (map int [0..<2])"
    and one_row: "\<forall>i < 3. length (filter (\<lambda>bc. int i \<in> set (fst bc))
                                  [([2], []), ([0, 1], [0, 1::int])]) = 1"
    and one_col: "\<forall>k < 2. length (filter (\<lambda>bc. int k \<in> set (snd bc))
                                  [([2::int], []), ([0, 1], [0, 1])]) = 1"
    unfolding shape by blast+
  from one_row have one_row': "list_all (\<lambda>i. length (filter (\<lambda>bc. int i \<in> set (fst bc))
                                [([2], []), ([0, 1], [0, 1::int])]) = 1) [0..<3]"
    unfolding list_all_iff by simp
  from one_col have one_col': "list_all (\<lambda>k. length (filter (\<lambda>bc. int k \<in> set (snd bc))
                                [([2::int], []), ([0, 1], [0, 1])]) = 1) [0..<2]"
    unfolding list_all_iff by simp
  from same have same': "list_all (\<lambda>(sg, r). mset (nodes (fst r)) = mset (nodes sg))
        (zip (hard_subgraphs ?H ?w) (solver_results ?H example_solvers ?w Algorithm_init 0))"
    unfolding list_all_iff .
  from part have part': "list_all (\<lambda>r. mset (concat (map nodes (connected_components ?H (fst r))))
                    = mset (nodes (fst r)))
        (solver_results ?H example_solvers ?w Algorithm_init 0)"
    unfolding list_all_iff .
  from lonely_row_computed shape whole same' part' rows cols one_row' one_col'
  show ?thesis by (intro conjI)
qed

section \<open>The selector\<close>

text \<open>
  A selector with a name that is neither \<^verbatim>\<open>"ILP"\<close> nor \<^verbatim>\<open>"CH"\<close> does not make every
  computation fail: on the matrix of the spec's scenario, where no component is hard,
  \<^verbatim>\<open>compute_bi_clusters\<close> returns the two bi-clusters, cost 0 and the flag true.
\<close>

theorem unknown_name_unreported:
  "algorithm_name (Algorithm_init\<lparr>algorithm_name := ''XY''\<rparr>) \<noteq> ''ILP''
   \<and> algorithm_name (Algorithm_init\<lparr>algorithm_name := ''XY''\<rparr>) \<noteq> ''CH''
   \<and> compute_bi_clusters spec_helpers example_solvers diagonal_weights
        (Algorithm_init\<lparr>algorithm_name := ''XY''\<rparr>) 0
       = Inr (([([0], [0]), ([1], [1])], 0, True), 0)"
  unfolding diagonal_weights_def
  by (simp add: compute_bi_clusters_split no_hard_subgraphs[OF diagonal_bi_cliques]
      diagonal_bi_clusters)

text \<open>
  C6, as amended: with a name that is neither \<^verbatim>\<open>"ILP"\<close> nor \<^verbatim>\<open>"CH"\<close>, every call of
  \<^verbatim>\<open>run\<close> raises the exception whose message holds the name and the two options, and
  calls no solver. \<^verbatim>\<open>compute_bi_clusters\<close> raises this exception, whatever the solvers
  are, if the instance has a hard subgraph; if it has none, it returns the bi-clusters
  of the components, cost 0 and the flag true.
\<close>

theorem unknown_name_raises_at_first_run:
  assumes "algorithm_name A \<noteq> ''ILP''" and "algorithm_name A \<noteq> ''CH''"
  shows \<open>run A S w subgraph s
           = Inl (Exception
               [Text (''Invalid algorithm name "'' @ algorithm_name A @ ''". Options: "ILP", "CH".'')])
         \<and> compute_bi_clusters H S w A s'
           = (if hard_subgraphs H w = []
              then Inr ((map (bi_cluster_of H (shape0 w)) (all_components H w), 0, True), s')
              else Inl (Exception
               [Text (''Invalid algorithm name "'' @ algorithm_name A @ ''". Options: "ILP", "CH".'')]))\<close>
proof -
  from assms have unknown: "\<not> known_name A" by (simp add: known_name_def)
  have "bi_clique_components H w = all_components H w" if "hard_subgraphs H w = []"
    using that by (simp add: hard_subgraphs_def bi_clique_components_def filter_empty_conv)
  with unknown show ?thesis
    by (simp add: run_unknown compute_bi_clusters_unknown)
qed

text \<open>The instance with two blocks has hard subgraphs, so the unknown name is reported.\<close>

theorem unknown_name_raises_at_first_run_witness:
  \<open>algorithm_name (Algorithm_init\<lparr>algorithm_name := ''XY''\<rparr>) \<noteq> ''ILP''
   \<and> algorithm_name (Algorithm_init\<lparr>algorithm_name := ''XY''\<rparr>) \<noteq> ''CH''
   \<and> run (Algorithm_init\<lparr>algorithm_name := ''XY''\<rparr>) example_solvers two_block_weights
        \<lparr>nodes = [0, 1, 4, 5], edges = [(0, 4), (0, 5), (1, 4)]\<rparr> 0
       = Inl (Exception [Text ''Invalid algorithm name "XY". Options: "ILP", "CH".''])
   \<and> hard_subgraphs spec_helpers two_block_weights \<noteq> []
   \<and> compute_bi_clusters spec_helpers example_solvers two_block_weights
        (Algorithm_init\<lparr>algorithm_name := ''XY''\<rparr>) 0
       = Inl (Exception [Text ''Invalid algorithm name "XY". Options: "ILP", "CH".''])\<close>
proof -
  let ?A = "Algorithm_init\<lparr>algorithm_name := ''XY''\<rparr>"
  have h1: "algorithm_name ?A \<noteq> ''ILP''" and h2: "algorithm_name ?A \<noteq> ''CH''" by simp_all
  have hard: "hard_subgraphs spec_helpers two_block_weights \<noteq> []"
    by (simp add: two_block_hard)
  from unknown_name_raises_at_first_run[OF h1 h2, of example_solvers two_block_weights
      "\<lparr>nodes = [0, 1, 4, 5], edges = [(0, 4), (0, 5), (1, 4)]\<rparr>" 0 spec_helpers 0] hard h1 h2
  show ?thesis by simp
qed

text \<open>
  C7: \<^verbatim>\<open>run\<close> dispatches on the stored name. With \<^verbatim>\<open>"ILP"\<close> it returns what the exact
  solver returns for the weights, the subgraph, the stored time limit and the stored
  tuning flag; with \<^verbatim>\<open>"CH"\<close> it returns what the heuristic solver returns for the
  weights, the subgraph, the stored bias factor and the stored seed.
\<close>

theorem run_dispatches:
  "(algorithm_name A = ''ILP'' \<longrightarrow>
      run A S w subgraph s = Inr (ilp_run S w subgraph (ilp_time_limit A) (ilp_tune A) s))
   \<and> (algorithm_name A = ''CH'' \<longrightarrow>
      run A S w subgraph s = Inr (ch_run S w subgraph (ch_alpha A) (ch_seed A) s))"
  by (simp add: run_def)

theorem run_dispatches_witness:
  "algorithm_name (use_ilp Algorithm_init (Some 5) (Some True)) = ''ILP''
   \<and> run (use_ilp Algorithm_init (Some 5) (Some True)) example_solvers diagonal_weights
        \<lparr>nodes = [0, 2], edges = [(0, 2)]\<rparr> 0
      = Inr (fill_in diagonal_weights \<lparr>nodes = [0, 2], edges = [(0, 2)]\<rparr> 5 True 0)
   \<and> algorithm_name (use_ch Algorithm_init (Some (1 / 2)) (Some 7)) = ''CH''
   \<and> run (use_ch Algorithm_init (Some (1 / 2)) (Some 7)) example_solvers diagonal_weights
        \<lparr>nodes = [0, 2], edges = [(0, 2)]\<rparr> 0
      = Inr (give_back diagonal_weights \<lparr>nodes = [0, 2], edges = [(0, 2)]\<rparr> (1 / 2) (Some 7) 0)"
  using run_dispatches[of "use_ilp Algorithm_init (Some 5) (Some True)" example_solvers
          diagonal_weights "\<lparr>nodes = [0, 2], edges = [(0, 2)]\<rparr>" 0]
        run_dispatches[of "use_ch Algorithm_init (Some (1 / 2)) (Some 7)" example_solvers
          diagonal_weights "\<lparr>nodes = [0, 2], edges = [(0, 2)]\<rparr>" 0]
  by (simp add: use_ilp_def use_ch_def example_solvers_def)

text \<open>
  C9: a fresh \<^verbatim>\<open>Algorithm\<close> has the name \<^verbatim>\<open>"ILP"\<close>, the time limit 60, the tune flag
  False, the bias factor 1.0 and no seed. \<^verbatim>\<open>run\<close> on it returns what the exact solver
  returns for time limit 60 and tuning off, and does not depend on the heuristic solver.
\<close>

theorem Algorithm_init_runs_ilp:
  "algorithm_name Algorithm_init = ''ILP''
   \<and> ilp_time_limit Algorithm_init = 60
   \<and> ilp_tune Algorithm_init = False
   \<and> ch_alpha Algorithm_init = 1
   \<and> ch_seed Algorithm_init = None
   \<and> run Algorithm_init S weights subgraph s = Inr (ilp_run S weights subgraph 60 False s)
   \<and> run Algorithm_init (S\<lparr>ch_run := heuristic\<rparr>) weights subgraph s
       = run Algorithm_init S weights subgraph s"
  by (simp add: Algorithm_init_def run_def)

text \<open>
  C10: \<^verbatim>\<open>use_ilp\<close> sets the name, the time limit and the tune flag, and leaves the
  bias factor and the seed as they were; \<^verbatim>\<open>use_ch\<close> sets the name, the bias factor and
  the seed, and leaves the time limit and the tune flag as they were.
\<close>

theorem use_keeps_other_variant:
  "algorithm_name (use_ilp A time_limit tune) = ''ILP''
   \<and> ilp_time_limit (use_ilp A time_limit tune) = (case time_limit of None \<Rightarrow> 60 | Some t \<Rightarrow> t)
   \<and> ilp_tune (use_ilp A time_limit tune) = (case tune of None \<Rightarrow> False | Some b \<Rightarrow> b)
   \<and> ch_alpha (use_ilp A time_limit tune) = ch_alpha A
   \<and> ch_seed (use_ilp A time_limit tune) = ch_seed A
   \<and> algorithm_name (use_ch A alpha seed) = ''CH''
   \<and> ch_alpha (use_ch A alpha seed) = (case alpha of None \<Rightarrow> 1 | Some a \<Rightarrow> a)
   \<and> ch_seed (use_ch A alpha seed) = seed
   \<and> ilp_time_limit (use_ch A alpha seed) = ilp_time_limit A
   \<and> ilp_tune (use_ch A alpha seed) = ilp_tune A"
  by (simp add: use_ilp_def use_ch_def split: option.split)

end
